theory Spec2Isabelle
  imports Complex_Main
begin

section \<open>Batch acquisition optimization (GPyOpt/core/optimization.py)\<close>

text \<open>
  A shallow embedding of \<^verbatim>\<open>GPyOpt/core/optimization.py\<close>. Floating-point arrays are
  read over the reals: a location is a \<open>point\<close> (one row of \<open>D\<close> coordinates), an
  \<open>M \<times> D\<close> array is a \<open>matrix\<close> (a list of rows), and an \<open>M \<times> 1\<close> column of scores is a
  \<open>real list\<close> with one entry per row.

  \<^verbatim>\<open>reshape(x, input_dim)\<close> of \<^verbatim>\<open>util.general\<close> gives a single location the shape of a
  one-row matrix and leaves a matrix with \<open>input_dim\<close> columns as it is: here a point \<open>x\<close>
  becomes \<open>[x]\<close> and a matrix is unchanged.

  Every exception the module's own logic can raise is a value of \<open>error\<close>; a function that
  can raise returns \<open>error + 'a\<close>. numpy does not raise on a float division by zero: it
  yields \<open>inf\<close> or \<open>nan\<close>, which are not reals, so that branch is kept apart as
  \<open>FloatingPointError\<close>.
\<close>

type_synonym point = "real list"
type_synonym matrix = "point list"
type_synonym bounds = "(real \<times> real) list"
type_synonym acquisition = "matrix \<Rightarrow> real list"

datatype error =
    UnboundLocalError
  | ValueError
  | IndexError
  | TypeError
  | LinAlgError
  | FloatingPointError

subsection \<open>External collaborators\<close>

text \<open>
  The surrogate model is an object of GPy: observed inputs \<open>model.X\<close> (\<open>N \<times> D\<close>), observed
  outputs \<open>model.Y\<close> (\<open>N \<times> 1\<close>), \<open>model.predict\<close> (posterior mean and variance, one pair per
  queried row), \<open>model.predictive_gradients\<close> (the gradients of mean and variance, one pair
  of rows per queried row) and \<open>model.kern.K\<close>. \<open>model.copy()\<close> is the identity on this
  immutable value.
\<close>

record model =
  model_X :: matrix
  model_Y :: "real list"
  predict :: "point \<Rightarrow> real \<times> real"
  predictive_gradients :: "point \<Rightarrow> point \<times> point"
  kern_K :: "matrix \<Rightarrow> matrix"

text \<open>The result object of \<^verbatim>\<open>scipy.optimize.minimize\<close>: \<open>res.x\<close> and \<open>res.fun\<close>.\<close>

record opt_result =
  opt_x :: point
  opt_fun :: real

text \<open>
  What the module imports and calls but does not define. \<open>'g\<close> is the state of the random
  generator behind \<^verbatim>\<open>samples_multidimensional_uniform\<close>, threaded through every call that
  samples; \<open>'bo\<close> is the type of the driver objects \<^verbatim>\<open>GPyOpt.methods.BayesianOptimization\<close>.
  \<^item> \<open>minimize f x0 bounds\<close> is \<^verbatim>\<open>scipy.optimize.minimize(f, x0, method='SLSQP',
    bounds=bounds, args=...)\<close> with the extra arguments already given to \<open>f\<close>;
  \<^item> \<open>norm_cdf\<close> is \<^verbatim>\<open>scipy.stats.norm.cdf\<close>;
  \<^item> \<open>sqrtm_inv_real Sigma\<close> is \<^verbatim>\<open>scipy.linalg.sqrtm(np.linalg.inv(Sigma)).real\<close>, where
    \<^verbatim>\<open>np.linalg.inv\<close> raises \<^verbatim>\<open>LinAlgError\<close> on a singular matrix;
  \<^item> \<open>BayesianOptimization bounds X Y kernel acquisition acquisition_par\<close> is the
    constructor call of \<^verbatim>\<open>hybrid_batch_optimization\<close> (with \<open>f=0\<close>), which may raise;
  \<^item> \<open>start_optimization bo method restarts g\<close> is \<^verbatim>\<open>bo.start_optimization(max_iter=0,
    n_inbatch=1, ...)\<close>, and \<open>suggested_sample\<close> the one location it then suggests.
\<close>

record ('g, 'bo) externals =
  samples_multidimensional_uniform :: "bounds \<Rightarrow> nat \<Rightarrow> 'g \<Rightarrow> matrix \<times> 'g"
  multigrid :: "bounds \<Rightarrow> nat \<Rightarrow> matrix"
  minimize :: "(matrix \<Rightarrow> error + real list) \<Rightarrow> point \<Rightarrow> bounds \<Rightarrow> error + opt_result"
  norm_cdf :: "real \<Rightarrow> real"
  sqrtm_inv_real :: "matrix \<Rightarrow> error + matrix"
  WKmeans :: "matrix \<Rightarrow> real list \<Rightarrow> int \<Rightarrow> matrix"
  BayesianOptimization ::
    "bounds \<Rightarrow> matrix \<Rightarrow> real list \<Rightarrow> (matrix \<Rightarrow> matrix) \<Rightarrow> string \<Rightarrow> real \<Rightarrow> error + 'bo"
  start_optimization :: "'bo \<Rightarrow> string \<Rightarrow> nat \<Rightarrow> 'g \<Rightarrow> 'bo \<times> 'g"
  suggested_sample :: "'bo \<Rightarrow> point"

subsection \<open>numpy and Python primitives\<close>

text \<open>\<^verbatim>\<open>np.argmin\<close>: the index of the first minimum; \<^verbatim>\<open>ValueError\<close> on an empty array.\<close>

fun argmin_first :: "real list \<Rightarrow> nat" where
  "argmin_first [] = 0"
| "argmin_first [x] = 0"
| "argmin_first (x # y # ys) =
     (let j = argmin_first (y # ys) in if x \<le> (y # ys) ! j then 0 else Suc j)"

definition np_argmin :: "real list \<Rightarrow> error + nat" where
  "np_argmin a = (if a = [] then Inl ValueError else Inr (argmin_first a))"

text \<open>Python's builtin \<^verbatim>\<open>min\<close>: \<^verbatim>\<open>ValueError\<close> on an empty sequence.\<close>

definition py_min :: "real list \<Rightarrow> error + real" where
  "py_min xs = (if xs = [] then Inl ValueError else Inr (min_list xs))"

text \<open>Indexing a row \<^verbatim>\<open>a[i]\<close> with a non-negative index: \<^verbatim>\<open>IndexError\<close> out of range.\<close>

definition row :: "'a list \<Rightarrow> nat \<Rightarrow> error + 'a" where
  "row a i = (if i < length a then Inr (a ! i) else Inl IndexError)"





text \<open>A float division whose divisor may be zero.\<close>

definition np_divide :: "real \<Rightarrow> real \<Rightarrow> error + real" where
  "np_divide a b = (if b = 0 then Inl FloatingPointError else Inr (a / b))"

text \<open>\<^verbatim>\<open>np.sqrt(((x-x0)**2).sum(1))\<close> for one row \<open>x\<close>: the Euclidean distance to \<open>x0\<close>.\<close>

definition row_dist :: "point \<Rightarrow> point \<Rightarrow> real" where
  "row_dist x x0 = sqrt (sum_list (map (\<lambda>d. d ^ 2) (map2 (-) x x0)))"

subsection \<open>The hammer function and the penalized acquisition\<close>

text \<open>
  \<^verbatim>\<open>hammer_function(x, x0, L, Min, model)\<close> (the source's \<open>Min\<close> is written \<open>Min'\<close>). \<open>x\<close> is the matrix of query rows, \<open>x0\<close> one
  batch location; the model is queried at the one row \<open>x0\<close>, so \<open>m\<close> and \<open>pred\<close> have one
  entry each. \<open>variance_floor\<close> is the assignment \<^verbatim>\<open>pred[pred<1e-16] = 1e-16\<close>.
\<close>

definition variance_floor :: "real \<Rightarrow> real" where
  "variance_floor pred = (if pred < 1 / 10 ^ 16 then 1 / 10 ^ 16 else pred)"

definition hammer_s_x0 :: "point \<Rightarrow> real \<Rightarrow> model \<Rightarrow> error + real" where
  "hammer_s_x0 x0 L model =
     (let pred = variance_floor (snd (predict model x0));
          s = sqrt pred
      in np_divide s L)"

definition hammer_function ::
  "('g, 'bo) externals \<Rightarrow> matrix \<Rightarrow> point \<Rightarrow> real \<Rightarrow> real \<Rightarrow> model \<Rightarrow> error + real list" where
  "hammer_function E x x0 L Min' model =
     (let m = fst (predict model x0)
      in case np_divide (m - Min') L of
           Inl e \<Rightarrow> Inl e
         | Inr r_x0 \<Rightarrow>
             (case hammer_s_x0 x0 L model of
                Inl e \<Rightarrow> Inl e
              | Inr s_x0 \<Rightarrow>
                  if s_x0 = 0 then Inl FloatingPointError
                  else Inr (map (\<lambda>xi. norm_cdf E ((row_dist xi x0 - r_x0) / s_x0)) x)))"

text \<open>
  The loop of \<^verbatim>\<open>penalized_acquisition\<close> over the rows of \<open>X_batch\<close>. \<open>L\<close> and \<open>Min\<close> default
  to \<^verbatim>\<open>None\<close>, and the arithmetic of the hammer function on \<^verbatim>\<open>None\<close> is a \<^verbatim>\<open>TypeError\<close>.
\<close>

fun hammer_product ::
  "('g, 'bo) externals \<Rightarrow> matrix \<Rightarrow> real option \<Rightarrow> real option \<Rightarrow> model \<Rightarrow> real list \<Rightarrow> matrix
     \<Rightarrow> error + real list" where
  "hammer_product E x L Min' model fval [] = Inr fval"
| "hammer_product E x L Min' model fval (x0 # rest) =
     (case (L, Min') of
        (Some l, Some mn) \<Rightarrow>
          (case hammer_function E x x0 l mn model of
             Inl e \<Rightarrow> Inl e
           | Inr h \<Rightarrow> hammer_product E x L Min' model (map2 (*) fval h) rest)
      | _ \<Rightarrow> Inl TypeError)"

text \<open>
  Lines 177 and 178: \<open>sur_min\<close> and the normalized score \<open>fval\<close>, before any hammer factor.
\<close>

definition sur_min :: "acquisition \<Rightarrow> model \<Rightarrow> error + real" where
  "sur_min acquisition model = py_min (map uminus (acquisition (model_X model)))"

definition normalized_fval :: "acquisition \<Rightarrow> real \<Rightarrow> matrix \<Rightarrow> real list" where
  "normalized_fval acquisition s x = map (\<lambda>a. - a - sgn s * \<bar>s\<bar>) (acquisition x)"

definition penalized_acquisition ::
  "('g, 'bo) externals \<Rightarrow> matrix \<Rightarrow> acquisition \<Rightarrow> bounds \<Rightarrow> model \<Rightarrow> matrix option
     \<Rightarrow> real option \<Rightarrow> real option \<Rightarrow> error + real list" where
  "penalized_acquisition E x acquisition bnds model X_batch L Min' =
     (case sur_min acquisition model of
        Inl e \<Rightarrow> Inl e
      | Inr s \<Rightarrow>
          (let fval = normalized_fval acquisition s x
           in case X_batch of
                None \<Rightarrow> Inr (map uminus fval)
              | Some B \<Rightarrow>
                  (case hammer_product E x L Min' model fval B of
                     Inl e \<Rightarrow> Inl e
                   | Inr fval' \<Rightarrow> Inr (map uminus fval'))))"

subsection \<open>The single-point optimizer\<close>

text \<open>The samples of both families: random or grid, by \<open>method_type\<close>.\<close>

definition draw_samples ::
  "('g, 'bo) externals \<Rightarrow> string \<Rightarrow> bounds \<Rightarrow> nat \<Rightarrow> 'g \<Rightarrow> matrix \<times> 'g" where
  "draw_samples E method_type bnds acqu_optimize_restarts g =
     (if method_type = ''random''
      then samples_multidimensional_uniform E bnds acqu_optimize_restarts g
      else (multigrid E bnds acqu_optimize_restarts, g))"

text \<open>
  \<^verbatim>\<open>fast_acquisition_optimization\<close>, in two parts: \<open>fast_seed\<close> is the body up to the
  assignment of \<open>x0\<close> (sampling, \<^verbatim>\<open>pred_samples = acquisition(samples)\<close> and
  \<^verbatim>\<open>x0 = samples[np.argmin(pred_samples)]\<close>), then the one call of the local minimizer.
\<close>

definition fast_seed ::
  "('g, 'bo) externals \<Rightarrow> acquisition \<Rightarrow> bounds \<Rightarrow> nat \<Rightarrow> string \<Rightarrow> 'g \<Rightarrow> error + point \<times> 'g" where
  "fast_seed E acquisition bnds acqu_optimize_restarts method_type g =
     (let (samples, g') = draw_samples E method_type bnds acqu_optimize_restarts g;
          pred_samples = acquisition samples
      in case np_argmin pred_samples of
           Inl e \<Rightarrow> Inl e
         | Inr i \<Rightarrow>
             (case row samples i of
                Inl e \<Rightarrow> Inl e
              | Inr x0 \<Rightarrow> Inr (x0, g')))"

definition fast_acquisition_optimization ::
  "('g, 'bo) externals \<Rightarrow> acquisition \<Rightarrow> bounds \<Rightarrow> nat \<Rightarrow> model \<Rightarrow> string \<Rightarrow> matrix option
     \<Rightarrow> real option \<Rightarrow> real option \<Rightarrow> 'g \<Rightarrow> error + point \<times> 'g" where
  "fast_acquisition_optimization E acquisition bnds acqu_optimize_restarts model method_type
       X_batch L Min' g =
     (case fast_seed E acquisition bnds acqu_optimize_restarts method_type g of
        Inl e \<Rightarrow> Inl e
      | Inr (x0, g') \<Rightarrow>
          (case minimize E
                  (\<lambda>x. penalized_acquisition E x acquisition bnds model X_batch L Min')
                  x0 bnds of
             Inl e \<Rightarrow> Inl e
           | Inr res \<Rightarrow> Inr (opt_x res, g')))"

text \<open>
  The seed as the specification words it: the candidates are scored by the penalized
  acquisition, in one batched call, and the arg-min of those scores is the seed.
\<close>

definition penalized_seed_spec ::
  "('g, 'bo) externals \<Rightarrow> acquisition \<Rightarrow> bounds \<Rightarrow> nat \<Rightarrow> model \<Rightarrow> string \<Rightarrow> matrix option
     \<Rightarrow> real option \<Rightarrow> real option \<Rightarrow> 'g \<Rightarrow> error + point \<times> 'g" where
  "penalized_seed_spec E acquisition bnds acqu_optimize_restarts model method_type
       X_batch L Min' g =
     (let (samples, g') = draw_samples E method_type bnds acqu_optimize_restarts g
      in case penalized_acquisition E samples acquisition bnds model X_batch L Min' of
           Inl e \<Rightarrow> Inl e
         | Inr pred_samples \<Rightarrow>
             (case np_argmin pred_samples of
                Inl e \<Rightarrow> Inl e
              | Inr i \<Rightarrow>
                  (case row samples i of
                     Inl e \<Rightarrow> Inl e
                   | Inr x0 \<Rightarrow> Inr (x0, g'))))"

text \<open>The loop \<^verbatim>\<open>for k in range(acqu_optimize_restarts)\<close> of the full family.\<close>

fun full_loop ::
  "('g, 'bo) externals \<Rightarrow> (matrix \<Rightarrow> error + real list) \<Rightarrow> bounds \<Rightarrow> matrix \<Rightarrow> nat list
     \<Rightarrow> matrix \<Rightarrow> real list \<Rightarrow> error + matrix \<times> real list" where
  "full_loop E f bnds samples [] mins fmins = Inr (mins, fmins)"
| "full_loop E f bnds samples (k # ks) mins fmins =
     (case row samples k of
        Inl e \<Rightarrow> Inl e
      | Inr x0 \<Rightarrow>
          (case minimize E f x0 bnds of
             Inl e \<Rightarrow> Inl e
           | Inr res \<Rightarrow>
               full_loop E f bnds samples ks (mins[k := opt_x res]) (fmins[k := opt_fun res])))"

definition full_acquisition_optimization ::
  "('g, 'bo) externals \<Rightarrow> acquisition \<Rightarrow> bounds \<Rightarrow> nat \<Rightarrow> model \<Rightarrow> string \<Rightarrow> matrix option
     \<Rightarrow> real option \<Rightarrow> real option \<Rightarrow> 'g \<Rightarrow> error + point \<times> 'g" where
  "full_acquisition_optimization E acquisition bnds acqu_optimize_restarts model method_type
       X_batch L Min' g =
     (let (samples, g') = draw_samples E method_type bnds acqu_optimize_restarts g;
          mins = replicate acqu_optimize_restarts (replicate (length bnds) 0);
          fmins = replicate acqu_optimize_restarts 0
      in case full_loop E
                (\<lambda>x. penalized_acquisition E x acquisition bnds model X_batch L Min')
                bnds samples [0..<acqu_optimize_restarts] mins fmins of
           Inl e \<Rightarrow> Inl e
         | Inr (mins', fmins') \<Rightarrow>
             (case np_argmin fmins' of
                Inl e \<Rightarrow> Inl e
              | Inr i \<Rightarrow>
                  (case row mins' i of
                     Inl e \<Rightarrow> Inl e
                   | Inr p \<Rightarrow> Inr (p, g'))))"

text \<open>
  \<^verbatim>\<open>optimize_acquisition\<close>: an \<^verbatim>\<open>if/elif\<close> chain with no \<^verbatim>\<open>else\<close>; on any other method
  \<^verbatim>\<open>return res\<close> reads a local that was never assigned.
\<close>

definition optimize_acquisition ::
  "('g, 'bo) externals \<Rightarrow> acquisition \<Rightarrow> bounds \<Rightarrow> nat \<Rightarrow> string \<Rightarrow> model \<Rightarrow> matrix option
     \<Rightarrow> real option \<Rightarrow> real option \<Rightarrow> 'g \<Rightarrow> error + point \<times> 'g" where
  "optimize_acquisition E acquisition bnds acqu_optimize_restarts acqu_optimize_method model
       X_batch L Min' g =
     (if acqu_optimize_method = ''brute'' then
        full_acquisition_optimization E acquisition bnds acqu_optimize_restarts model ''brute''
          X_batch L Min' g
      else if acqu_optimize_method = ''random'' then
        full_acquisition_optimization E acquisition bnds acqu_optimize_restarts model ''random''
          X_batch L Min' g
      else if acqu_optimize_method = ''fast_brute'' then
        fast_acquisition_optimization E acquisition bnds acqu_optimize_restarts model ''brute''
          X_batch L Min' g
      else if acqu_optimize_method = ''fast_random'' then
        fast_acquisition_optimization E acquisition bnds acqu_optimize_restarts model ''random''
          X_batch L Min' g
      else Inl UnboundLocalError)"

subsection \<open>Lipschitz and minimum estimates\<close>

text \<open>
  The inner function \<open>df\<close> of \<^verbatim>\<open>estimate_L\<close>: minus the norm of the gradient of the
  posterior mean, one value per row of \<open>x\<close>.
\<close>

definition df :: "matrix \<Rightarrow> model \<Rightarrow> real \<Rightarrow> real list" where
  "df x model alpha =
     map (\<lambda>xi. - sqrt (sum_list (map (\<lambda>d. d * d) (fst (predictive_gradients model xi))))) x"

text \<open>The last two statements of \<^verbatim>\<open>estimate_L\<close>, from the value \<open>minusL\<close> on.\<close>

definition lipschitz_floor :: "real \<Rightarrow> real" where
  "lipschitz_floor minusL = (let L = - minusL in if L < 0.1 then 100 else L)"

definition estimate_L ::
  "('g, 'bo) externals \<Rightarrow> model \<Rightarrow> bounds \<Rightarrow> real \<Rightarrow> 'g \<Rightarrow> error + real \<times> 'g" where
  "estimate_L E model bnds alpha g =
     (let (samples, g') = samples_multidimensional_uniform E bnds 5 g;
          pred_samples = df samples model alpha
      in case np_argmin pred_samples of
           Inl e \<Rightarrow> Inl e
         | Inr i \<Rightarrow>
             (case row samples i of
                Inl e \<Rightarrow> Inl e
              | Inr x0 \<Rightarrow>
                  (case minimize E (\<lambda>x. Inr (df x model alpha)) x0 bnds of
                     Inl e \<Rightarrow> Inl e
                   | Inr res \<Rightarrow> Inr (lipschitz_floor (opt_fun res), g'))))"


subsection \<open>Batch strategies\<close>





text \<open>
  The loop of \<^verbatim>\<open>hybrid_batch_optimization\<close>. The constructor call stands in a \<^verbatim>\<open>try\<close>
  whose handler catches \<^verbatim>\<open>LinAlgError\<close> only, prints and leaves the loop; what is printed
  is the third component of the result. Here \<open>X_batch\<close> starts as \<^verbatim>\<open>reshape(X_new,input_dim)\<close>,
  a matrix of one row.
\<close>

function hybrid_loop ::
  "('g, 'bo) externals \<Rightarrow> string \<Rightarrow> real \<Rightarrow> bounds \<Rightarrow> nat \<Rightarrow> string \<Rightarrow> model
     \<Rightarrow> (matrix \<Rightarrow> matrix) \<Rightarrow> int \<Rightarrow> int \<Rightarrow> matrix \<Rightarrow> real list \<Rightarrow> point \<Rightarrow> matrix \<Rightarrow> 'g
     \<Rightarrow> error + matrix \<times> 'g \<times> string list" where
  "hybrid_loop E acqu_name acquisition_par bnds restarts method model kernel' n_inbatch k
       X Y X_new X_batch g =
     (if k < n_inbatch then
        (case BayesianOptimization E bnds (X @ [X_new]) (Y @ [fst (predict model X_new)])
                kernel' acqu_name acquisition_par of
           Inl e \<Rightarrow>
             if e = LinAlgError
             then Inr (X_batch, g, [''Optimization stopped. Two equal points selected.''])
             else Inl e
         | Inr batchBO \<Rightarrow>
             hybrid_loop E acqu_name acquisition_par bnds restarts method model kernel'
               n_inbatch (k + 1) (X @ [X_new]) (Y @ [fst (predict model X_new)])
               (suggested_sample E (fst (start_optimization E batchBO method restarts g)))
               (X_batch @ [suggested_sample E (fst (start_optimization E batchBO method restarts g))])
               (snd (start_optimization E batchBO method restarts g)))
      else Inr (X_batch, g, []))"
  by pat_completeness auto
termination
  by (relation "measure (\<lambda>(E, acqu_name, acquisition_par, bnds, restarts, method, model,
          kernel', n_inbatch, k, X, Y, X_new, X_batch, g). nat (n_inbatch - k))") auto

definition hybrid_batch_optimization ::
  "('g, 'bo) externals \<Rightarrow> string \<Rightarrow> real \<Rightarrow> acquisition \<Rightarrow> bounds \<Rightarrow> nat \<Rightarrow> string \<Rightarrow> model
     \<Rightarrow> int \<Rightarrow> 'g \<Rightarrow> error + matrix \<times> 'g \<times> string list" where
  "hybrid_batch_optimization E acqu_name acquisition_par acquisition bnds
       acqu_optimize_restarts acqu_optimize_method model n_inbatch g =
     (let model_copy = model;
          X = model_X model_copy;
          Y = model_Y model_copy;
          kernel' = kern_K model_copy
      in case optimize_acquisition E acquisition bnds acqu_optimize_restarts
                acqu_optimize_method model None None None g of
           Inl e \<Rightarrow> Inl e
         | Inr (X_new, g1) \<Rightarrow>
             hybrid_loop E acqu_name acquisition_par bnds acqu_optimize_restarts
               acqu_optimize_method model kernel' n_inbatch 1 X Y X_new [X_new] g1)"

subsection \<open>Weighted clustering\<close>

text \<open>\<^verbatim>\<open>np.delete(a, i, 0)\<close>, \<^verbatim>\<open>np.dot\<close> of a matrix and a column, and boolean-mask indexing.\<close>

definition np_delete :: "'a list \<Rightarrow> nat \<Rightarrow> 'a list" where
  "np_delete a i = take i a @ drop (Suc i) a"

definition np_dot :: "matrix \<Rightarrow> real list \<Rightarrow> real list" where
  "np_dot A v = map (\<lambda>r. sum_list (map2 (*) r v)) A"

text \<open>
  \<^verbatim>\<open>a[msk,:]\<close> with a boolean mask: numpy raises \<^verbatim>\<open>IndexError\<close> when the mask has not one
  entry per row.
\<close>

definition mask_rows :: "'a list \<Rightarrow> bool list \<Rightarrow> error + 'a list" where
  "mask_rows a msk =
     (if length msk = length a then Inr (map fst (filter snd (zip a msk))) else Inl IndexError)"

text \<open>
  \<^verbatim>\<open>a[msk,:] = vs\<close>, reached only after \<open>mask_rows\<close> has accepted the same mask on an array
  of as many rows.
\<close>

fun mask_assign :: "'a list \<Rightarrow> bool list \<Rightarrow> 'a list \<Rightarrow> 'a list" where
  "mask_assign [] msk vs = []"
| "mask_assign (w # ws) [] vs = w # ws"
| "mask_assign (w # ws) (b # bs) vs =
     (if b then (case vs of [] \<Rightarrow> w # mask_assign ws bs [] | v # vs' \<Rightarrow> v # mask_assign ws bs vs')
      else w # mask_assign ws bs vs)"

definition compute_w :: "('g, 'bo) externals \<Rightarrow> real list \<Rightarrow> matrix \<Rightarrow> error + real list" where
  "compute_w E mu Sigma' =
     (let n_data = length Sigma'
      in case sqrtm_inv_real E Sigma' of
           Inl e \<Rightarrow> Inl e
         | Inr Sigma12 \<Rightarrow>
             (let probabilities = map (norm_cdf E) (np_dot Sigma12 mu)
              in Inr (map (\<lambda>i. prod_list (np_delete probabilities i)) [0..<n_data])))"

definition compute_batch_weigths ::
  "('g, 'bo) externals \<Rightarrow> matrix \<Rightarrow> model \<Rightarrow> error + real list" where
  "compute_batch_weigths E x model =
     (let Sigma' = kern_K model x;
          mu = map (\<lambda>xi. fst (predict model xi)) x
      in compute_w E mu Sigma')"

text \<open>
  The loop \<^verbatim>\<open>for k in np.unique(batch_labels)\<close>: the call of \<^verbatim>\<open>WKmeans\<close> stands inside it.
  \<open>X_batch\<close> is unassigned (\<open>None\<close>) until the first iteration.
\<close>

fun sm_loop ::
  "('g, 'bo) externals \<Rightarrow> model \<Rightarrow> int \<Rightarrow> int list \<Rightarrow> int list \<Rightarrow> real list \<Rightarrow> matrix option
     \<Rightarrow> error + real list \<times> matrix option" where
  "sm_loop E model n_inbatch batch_labels [] weights X_batch = Inr (weights, X_batch)"
| "sm_loop E model n_inbatch batch_labels (k # ks) weights X_batch =
     (let msk = map (\<lambda>l. l = k) batch_labels
      in case mask_rows (model_X model) msk of
           Inl e \<Rightarrow> Inl e
         | Inr x \<Rightarrow>
             (case compute_batch_weigths E x model of
                Inl e \<Rightarrow> Inl e
              | Inr w \<Rightarrow>
                  sm_loop E model n_inbatch batch_labels ks (mask_assign weights msk w)
                    (Some (WKmeans E (model_X model) (mask_assign weights msk w) n_inbatch))))"

text \<open>
  \<^verbatim>\<open>sm_batch_optimization\<close>. The first component is what the call returns or raises, the
  second what it has printed.
\<close>

definition sm_batch_optimization ::
  "('g, 'bo) externals \<Rightarrow> model \<Rightarrow> int \<Rightarrow> int list \<Rightarrow> (error + matrix) \<times> string list" where
  "sm_batch_optimization E model n_inbatch batch_labels =
     (let n = int (length (model_X model));
          out = (if n < n_inbatch
                 then [''Initial points should be larger than the batch size''] else []);
          weights = replicate (nat n) 0
      in case sm_loop E model n_inbatch batch_labels (sort (remdups batch_labels))
                weights None of
           Inl e \<Rightarrow> (Inl e, out)
         | Inr (weights', None) \<Rightarrow> (Inl UnboundLocalError, out)
         | Inr (weights', Some X_batch) \<Rightarrow> (Inr X_batch, out))"

subsection \<open>Bounds and the contracts of the collaborators\<close>

text \<open>A point lies within the box: each coordinate between its lower and upper bound.\<close>

definition in_bounds :: "point \<Rightarrow> bounds \<Rightarrow> bool" where
  "in_bounds x bnds = list_all2 (\<lambda>xd (lower, upper). lower \<le> xd \<and> xd \<le> upper) x bnds"

text \<open>
  What the module relies on, stated for the bounds of one call:
  the sampler returns as many points as asked, the grid at least as many; the acquisition
  returns one score per row; the local minimizer returns a result whenever its objective
  does not raise (it reports non-convergence in the result, and lets an exception of the
  objective through); sampler and minimizer keep to the box.
\<close>

definition sampler_count :: "('g, 'bo) externals \<Rightarrow> bounds \<Rightarrow> bool" where
  "sampler_count E bnds =
     (\<forall>K g. length (fst (samples_multidimensional_uniform E bnds K g)) = K)"



definition minimize_returns :: "('g, 'bo) externals \<Rightarrow> bounds \<Rightarrow> bool" where
  "minimize_returns E bnds =
     (\<forall>f x0. (\<forall>x. \<exists>v. f x = Inr v) \<longrightarrow> (\<exists>res. minimize E f x0 bnds = Inr res))"




subsection \<open>A concrete instance\<close>

text \<open>
  One instance of the collaborators, on which the theorems below are exercised: a sampler
  that returns the lower corner of the box, a grid on the diagonal of the box, a
  minimizer that stays at its start (or at the lower corner when the start is outside the
  box), a piecewise linear distribution function in the place of the normal one, a
  clustering that returns the first \<open>k\<close> points, and a driver whose construction raises
  \<^verbatim>\<open>LinAlgError\<close> when two rows of its data coincide and that suggests the upper corner.
\<close>

definition ex_norm_cdf :: "real \<Rightarrow> real" where
  "ex_norm_cdf z = (if z \<le> - 1 then 0 else if 1 \<le> z then 1 else (z + 1) / 2)"

definition ex_minimize ::
  "(matrix \<Rightarrow> error + real list) \<Rightarrow> point \<Rightarrow> bounds \<Rightarrow> error + opt_result" where
  "ex_minimize f x0 bnds =
     (let x = (if in_bounds x0 bnds then x0 else map fst bnds)
      in Inr \<lparr>opt_x = x, opt_fun = (case f [x] of Inr (v # vs) \<Rightarrow> v | _ \<Rightarrow> 0)\<rparr>)"

definition ex_multigrid :: "bounds \<Rightarrow> nat \<Rightarrow> matrix" where
  "ex_multigrid bnds K =
     map (\<lambda>i. map (\<lambda>(lower, upper). lower + (upper - lower) * real i / real (K - 1)) bnds)
       [0..<K]"

definition ex_externals :: "(nat, point) externals" where
  "ex_externals =
     \<lparr>samples_multidimensional_uniform = (\<lambda>bnds K g. (replicate K (map fst bnds), Suc g)),
      multigrid = ex_multigrid,
      minimize = ex_minimize,
      norm_cdf = ex_norm_cdf,
      sqrtm_inv_real = (\<lambda>S. Inr S),
      WKmeans = (\<lambda>X weights k. take (nat k) X),
      BayesianOptimization =
        (\<lambda>bnds X Y kern acqu_name acquisition_par.
           if distinct X then Inr (map snd bnds) else Inl LinAlgError),
      start_optimization = (\<lambda>bo method restarts g. (bo, Suc g)),
      suggested_sample = (\<lambda>bo. bo)\<rparr>"

text \<open>
  A model with one observation at 5 and constant posterior mean 1 and variance 1, and an
  acquisition that scores the location 0 with \<open>-2\<close>, the location 1 with \<open>-1\<close> and every
  other location with 0.
\<close>

definition ex_model :: model where
  "ex_model =
     \<lparr>model_X = [[5]], model_Y = [0], predict = (\<lambda>x. (1, 1)),
      predictive_gradients = (\<lambda>x. (map (\<lambda>d. 0) x, map (\<lambda>d. 0) x)),
      kern_K = (\<lambda>x. map (\<lambda>a. map (\<lambda>b. if a = b then 1 else 0) x) x)\<rparr>"

definition ex_acquisition :: acquisition where
  "ex_acquisition x = map (\<lambda>xi. if xi = [0] then - 2 else if xi = [1] then - 1 else 0) x"





section \<open>Properties\<close>

subsection \<open>Facts about the primitives and the concrete instance\<close>

lemma argmin_first_less: "xs \<noteq> [] \<Longrightarrow> argmin_first xs < length xs"
  by (induction xs rule: argmin_first.induct) (auto simp: Let_def)

lemma argmin_first_shift:
  "argmin_first (map (\<lambda>a. a + c) xs) = argmin_first xs"
proof (induction xs rule: argmin_first.induct)
  case 1
  then show ?case by simp
next
  case (2 x)
  then show ?case by simp
next
  case (3 x y ys)
  have "argmin_first (y # ys) < length (y # ys)"
    by (rule argmin_first_less) simp
  then have "map (\<lambda>a. a + c) (y # ys) ! argmin_first (y # ys) = (y # ys) ! argmin_first (y # ys) + c"
    by (rule nth_map)
  with 3 show ?case by (simp add: Let_def)
qed

lemma np_argmin_shift: "np_argmin (map (\<lambda>a. a + c) xs) = np_argmin xs"
  by (simp add: np_argmin_def argmin_first_shift)

lemma argmin_first_le: "j < length xs \<Longrightarrow> xs ! argmin_first xs \<le> xs ! j"
proof (induction xs arbitrary: j rule: argmin_first.induct)
  case 1
  then show ?case by simp
next
  case (2 x)
  then show ?case by simp
next
  case (3 x y ys)
  show ?case
  proof (cases j)
    case 0
    then show ?thesis by (auto simp: Let_def)
  next
    case (Suc j')
    with 3 have "(y # ys) ! argmin_first (y # ys) \<le> (y # ys) ! j'" by simp
    then show ?thesis using Suc by (auto simp: Let_def)
  qed
qed

lemma argmin_first_strict: "j < argmin_first xs \<Longrightarrow> xs ! argmin_first xs < xs ! j"
proof (induction xs arbitrary: j rule: argmin_first.induct)
  case 1
  then show ?case by simp
next
  case (2 x)
  then show ?case by simp
next
  case (3 x y ys)
  show ?case
  proof (cases j)
    case 0
    with 3 show ?thesis by (auto simp: Let_def split: if_splits)
  next
    case (Suc j')
    with 3 show ?thesis by (auto simp: Let_def split: if_splits)
  qed
qed

lemma np_argmin_Inr:
  "np_argmin xs = Inr i \<Longrightarrow> i < length xs \<and> i = argmin_first xs"
  by (auto simp: np_argmin_def argmin_first_less split: if_splits)

lemma np_argmin_nonempty: "xs \<noteq> [] \<Longrightarrow> np_argmin xs = Inr (argmin_first xs)"
  by (simp add: np_argmin_def)

lemma ex_fields:
  "samples_multidimensional_uniform ex_externals = (\<lambda>bnds K g. (replicate K (map fst bnds), Suc g))"
  "multigrid ex_externals = ex_multigrid"
  "minimize ex_externals = ex_minimize"
  "norm_cdf ex_externals = ex_norm_cdf"
  "sqrtm_inv_real ex_externals = (\<lambda>S. Inr S)"
  "WKmeans ex_externals = (\<lambda>X weights k. take (nat k) X)"
  "BayesianOptimization ex_externals =
     (\<lambda>bnds X Y kern acqu_name acquisition_par.
        if distinct X then Inr (map snd bnds) else Inl LinAlgError)"
  "start_optimization ex_externals = (\<lambda>bo method restarts g. (bo, Suc g))"
  "suggested_sample ex_externals = (\<lambda>bo. bo)"
  by (simp_all add: ex_externals_def)

lemma ex_sur_min: "sur_min ex_acquisition ex_model = Inr 0"
  by (simp add: sur_min_def ex_acquisition_def ex_model_def py_min_def)

lemma ex_multigrid_2: "ex_multigrid [(0, 1)] 2 = [[0], [1]]"
  by (simp add: ex_multigrid_def upt_rec)

lemma ex_fast_seed:
  "fast_seed ex_externals ex_acquisition [(0, 1)] 2 ''brute'' g = Inr ([0], g)"
  by (simp add: fast_seed_def draw_samples_def ex_fields ex_multigrid_2 ex_acquisition_def
      np_argmin_def row_def)

lemma ex_hammer:
  "hammer_function ex_externals [[0], [1]] [0] 1 0 ex_model = Inr [0, 1 / 2]"
  by (simp add: hammer_function_def hammer_s_x0_def np_divide_def variance_floor_def
      ex_model_def row_dist_def ex_fields ex_norm_cdf_def)

lemma ex_penalized:
  "penalized_acquisition ex_externals [[0], [1]] ex_acquisition [(0, 1)] ex_model
     (Some [[0]]) (Some 1) (Some 0) = Inr [0, - 1 / 2]"
  by (simp add: penalized_acquisition_def ex_sur_min normalized_fval_def ex_acquisition_def
      ex_hammer)

lemma ex_penalized_seed:
  "penalized_seed_spec ex_externals ex_acquisition [(0, 1)] 2 ex_model ''brute''
     (Some [[0]]) (Some 1) (Some 0) g = Inr ([1], g)"
  by (simp add: penalized_seed_spec_def draw_samples_def ex_fields ex_multigrid_2
      ex_penalized np_argmin_def row_def)

lemma ex_minimize_stays:
  "in_bounds x0 bnds \<Longrightarrow> \<exists>v. ex_minimize f x0 bnds = Inr \<lparr>opt_x = x0, opt_fun = v\<rparr>"
  by (simp add: ex_minimize_def)

lemma ex_fast:
  "fast_acquisition_optimization ex_externals ex_acquisition [(0, 1)] 2 ex_model ''brute''
     X_batch L Min' g = Inr ([0], g)"
  by (simp add: fast_acquisition_optimization_def ex_fast_seed ex_fields ex_minimize_def
      in_bounds_def Let_def)

subsection \<open>The method selector\<close>

text \<open>
  C10. The method selector of \<open>optimize_acquisition\<close> handles exactly the four strings
  \<open>brute\<close>, \<open>random\<close>, \<open>fast_brute\<close> and \<open>fast_random\<close>, each dispatched to its family and
  sampler; on any other method the call fails with the unbound-local error: it neither
  returns a point nor falls back to a default method.
\<close>

theorem optimize_acquisition_method_selector:
  "optimize_acquisition E acq bnds r ''brute'' model X_batch L Min' g =
     full_acquisition_optimization E acq bnds r model ''brute'' X_batch L Min' g
   \<and> optimize_acquisition E acq bnds r ''random'' model X_batch L Min' g =
     full_acquisition_optimization E acq bnds r model ''random'' X_batch L Min' g
   \<and> optimize_acquisition E acq bnds r ''fast_brute'' model X_batch L Min' g =
     fast_acquisition_optimization E acq bnds r model ''brute'' X_batch L Min' g
   \<and> optimize_acquisition E acq bnds r ''fast_random'' model X_batch L Min' g =
     fast_acquisition_optimization E acq bnds r model ''random'' X_batch L Min' g
   \<and> (method \<notin> {''brute'', ''random'', ''fast_brute'', ''fast_random''} \<longrightarrow>
        optimize_acquisition E acq bnds r method model X_batch L Min' g = Inl UnboundLocalError)"
  by (simp add: optimize_acquisition_def)

theorem optimize_acquisition_method_selector_witness:
  "''sgd'' \<notin> {''brute'', ''random'', ''fast_brute'', ''fast_random''}
   \<and> optimize_acquisition ex_externals ex_acquisition [(0, 1)] 2 ''sgd'' ex_model
       None None None (0::nat) = Inl UnboundLocalError
   \<and> optimize_acquisition ex_externals ex_acquisition [(0, 1)] 2 ''fast_brute'' ex_model
       None None None (0::nat) = Inr ([0], 0)"
  using optimize_acquisition_method_selector
    [of ex_externals ex_acquisition "[(0, 1)]" 2 ex_model None None None 0 "''sgd''"]
  by (simp add: ex_fast)

subsection \<open>The Lipschitz estimate\<close>

lemma lipschitz_floor_ge: "0.1 \<le> lipschitz_floor minusL"
  by (simp add: lipschitz_floor_def Let_def)


lemma estimate_L_Inr:
  assumes "estimate_L E model bnds alpha g = Inr (L, g')"
  shows "\<exists>x0 res. minimize E (\<lambda>x. Inr (df x model alpha)) x0 bnds = Inr res
           \<and> L = lipschitz_floor (opt_fun res)"
  using assms
  by (auto simp: estimate_L_def Let_def split: prod.splits sum.splits)

lemma length_df: "length (df x model alpha) = length x"
  by (simp add: df_def)

lemma sampler_countD:
  assumes "sampler_count E bnds" and "samples_multidimensional_uniform E bnds K g = (samples, g')"
  shows "length samples = K"
proof -
  from assms(1) have "length (fst (samples_multidimensional_uniform E bnds K g)) = K"
    unfolding sampler_count_def by blast
  with assms(2) show ?thesis by simp
qed

lemma minimize_returnsD:
  assumes "minimize_returns E bnds" and "\<And>x. \<exists>v. f x = Inr v"
  shows "\<exists>res. minimize E f x0 bnds = Inr res"
  using assms unfolding minimize_returns_def by blast

lemma estimate_L_returns:
  assumes "sampler_count E bnds" and "minimize_returns E bnds"
  shows "\<exists>x0 res. minimize E (\<lambda>x. Inr (df x model alpha)) x0 bnds = Inr res
           \<and> estimate_L E model bnds alpha g =
               Inr (lipschitz_floor (opt_fun res), snd (samples_multidimensional_uniform E bnds 5 g))"
proof -
  obtain samples g' where s: "samples_multidimensional_uniform E bnds 5 g = (samples, g')"
    by (cases "samples_multidimensional_uniform E bnds 5 g")
  from assms(1) s have len: "length samples = 5"
    by (rule sampler_countD)
  then have ne: "df samples model alpha \<noteq> []"
    by (auto simp: df_def)
  have i: "argmin_first (df samples model alpha) < length samples"
    using argmin_first_less [OF ne] by (simp add: length_df)
  obtain res where r: "minimize E (\<lambda>x. Inr (df x model alpha))
      (samples ! argmin_first (df samples model alpha)) bnds = Inr res"
    using minimize_returnsD [OF assms(2), of "\<lambda>x. Inr (df x model alpha)"] by blast
  show ?thesis
    using s ne i r by (auto simp: estimate_L_def np_argmin_def row_def)
qed

text \<open>
  C7. \<open>estimate_L\<close> never returns a value below 0.1: what it returns is the negated value
  \<open>res.fun\<close> of the local minimizer when that is at least 0.1, and exactly 100 whenever it
  is below 0.1. It does return when the sampler gives its five points and the minimizer
  returns; and for a model whose posterior-mean gradient has norm below 0.1 everywhere
  (the minimizer reporting the objective's value at its point) it returns exactly 100.
\<close>

theorem estimate_L_floor:
  "(estimate_L E model bnds alpha g = Inr (L, g') \<longrightarrow>
      0.1 \<le> L
      \<and> (\<exists>x0 res. minimize E (\<lambda>x. Inr (df x model alpha)) x0 bnds = Inr res
            \<and> (- opt_fun res < 0.1 \<longrightarrow> L = 100)
            \<and> (0.1 \<le> - opt_fun res \<longrightarrow> L = - opt_fun res)))
   \<and> (sampler_count E bnds \<and> minimize_returns E bnds \<longrightarrow>
        (\<exists>L g'. estimate_L E model bnds alpha g = Inr (L, g')))
   \<and> (sampler_count E bnds \<and> minimize_returns E bnds
        \<and> (\<forall>x0 res. minimize E (\<lambda>x. Inr (df x model alpha)) x0 bnds = Inr res \<longrightarrow>
              df [opt_x res] model alpha = [opt_fun res])
        \<and> (\<forall>x. sqrt (sum_list (map (\<lambda>d. d * d) (fst (predictive_gradients model x)))) < 0.1)
        \<longrightarrow> (\<exists>g'. estimate_L E model bnds alpha g = Inr (100, g')))"
proof (intro conjI impI)
  assume a: "estimate_L E model bnds alpha g = Inr (L, g')"
  from estimate_L_Inr [OF a] obtain x0 res where
    r: "minimize E (\<lambda>x. Inr (df x model alpha)) x0 bnds = Inr res"
    and l: "L = lipschitz_floor (opt_fun res)" by blast
  show "0.1 \<le> L" using l lipschitz_floor_ge by simp
  show "\<exists>x0 res. minimize E (\<lambda>x. Inr (df x model alpha)) x0 bnds = Inr res
          \<and> (- opt_fun res < 0.1 \<longrightarrow> L = 100) \<and> (0.1 \<le> - opt_fun res \<longrightarrow> L = - opt_fun res)"
    using r l by (intro exI [of _ x0] exI [of _ res]) (simp add: lipschitz_floor_def Let_def)
next
  assume "sampler_count E bnds \<and> minimize_returns E bnds"
  then show "\<exists>L g'. estimate_L E model bnds alpha g = Inr (L, g')"
    using estimate_L_returns [of E bnds model alpha g] by blast
next
  assume a: "sampler_count E bnds \<and> minimize_returns E bnds
    \<and> (\<forall>x0 res. minimize E (\<lambda>x. Inr (df x model alpha)) x0 bnds = Inr res \<longrightarrow>
          df [opt_x res] model alpha = [opt_fun res])
    \<and> (\<forall>x. sqrt (sum_list (map (\<lambda>d. d * d) (fst (predictive_gradients model x)))) < 0.1)"
  then obtain x0 res where
    r: "minimize E (\<lambda>x. Inr (df x model alpha)) x0 bnds = Inr res"
    and e: "estimate_L E model bnds alpha g =
      Inr (lipschitz_floor (opt_fun res), snd (samples_multidimensional_uniform E bnds 5 g))"
    using estimate_L_returns [of E bnds model alpha g] by blast
  from a r have "df [opt_x res] model alpha = [opt_fun res]" by blast
  then have "opt_fun res =
      - sqrt (sum_list (map (\<lambda>d. d * d) (fst (predictive_gradients model (opt_x res)))))"
    by (simp add: df_def)
  moreover from a have
    "sqrt (sum_list (map (\<lambda>d. d * d) (fst (predictive_gradients model (opt_x res))))) < 0.1"
    by blast
  ultimately have "lipschitz_floor (opt_fun res) = 100"
    by (simp add: lipschitz_floor_def Let_def)
  with e show "\<exists>g'. estimate_L E model bnds alpha g = Inr (100, g')" by simp
qed

lemma ex_sampler_count: "sampler_count ex_externals bnds"
  by (simp add: sampler_count_def ex_fields)

lemma ex_minimize_returns: "minimize_returns ex_externals bnds"
  by (simp add: minimize_returns_def ex_fields ex_minimize_def Let_def)

lemma ex_df: "df x ex_model alpha = map (\<lambda>xi. 0) x"
  by (simp add: df_def ex_model_def o_def)

theorem estimate_L_floor_witness:
  "sampler_count ex_externals [(0, 1)] \<and> minimize_returns ex_externals [(0, 1)]
   \<and> (\<exists>g'. estimate_L ex_externals ex_model [(0, 1)] 0.025 (0::nat) = Inr (100, g'))"
proof -
  have "\<forall>x0 res. minimize ex_externals (\<lambda>x. Inr (df x ex_model 0.025)) x0 [(0, 1)] = Inr res \<longrightarrow>
      df [opt_x res] ex_model 0.025 = [opt_fun res]"
    by (auto simp: ex_fields ex_minimize_def ex_df Let_def)
  moreover have
    "\<forall>x. sqrt (sum_list (map (\<lambda>d. d * d) (fst (predictive_gradients ex_model x)))) < 0.1"
    by (simp add: ex_model_def o_def)
  ultimately show ?thesis
    using estimate_L_floor [of ex_externals ex_model "[(0, 1)]" "0.025" 0 100 0]
      ex_sampler_count [of "[(0, 1)]"] ex_minimize_returns [of "[(0, 1)]"]
    by blast
qed

subsection \<open>The penalized acquisition and the hammer function\<close>

lemma sgn_mult_abs_real: "sgn (s::real) * \<bar>s\<bar> = s"
  by (simp add: sgn_real_def)

lemma normalized_fval_uminus:
  "map uminus (normalized_fval acq s x) = map (\<lambda>a. a + s) (acq x)"
  by (simp add: normalized_fval_def sgn_mult_abs_real)

text \<open>
  C5. With no batch point selected yet (\<open>X_batch\<close> is \<^verbatim>\<open>None\<close>, or has no row) the penalized
  acquisition is the sign-normalized raw acquisition at every query row: the negated
  \<open>fval\<close> of line 178, which is the raw score plus \<open>sur_min\<close>, with no hammer factor; a
  non-empty batch starts from the same \<open>fval\<close> and multiplies the hammer factors in.
\<close>

theorem penalized_acquisition_empty_batch:
  "penalized_acquisition E x acq bnds model None L Min' =
     (case sur_min acq model of
        Inl e \<Rightarrow> Inl e
      | Inr s \<Rightarrow> Inr (map uminus (normalized_fval acq s x)))
   \<and> penalized_acquisition E x acq bnds model (Some []) L Min' =
       penalized_acquisition E x acq bnds model None L Min'
   \<and> penalized_acquisition E x acq bnds model None L Min' =
       (case sur_min acq model of
          Inl e \<Rightarrow> Inl e
        | Inr s \<Rightarrow> Inr (map (\<lambda>a. a + s) (acq x)))
   \<and> penalized_acquisition E x acq bnds model (Some B) L Min' =
       (case sur_min acq model of
          Inl e \<Rightarrow> Inl e
        | Inr s \<Rightarrow>
            (case hammer_product E x L Min' model (normalized_fval acq s x) B of
               Inl e \<Rightarrow> Inl e
             | Inr fval \<Rightarrow> Inr (map uminus fval)))"
  by (simp add: penalized_acquisition_def Let_def normalized_fval_uminus split: sum.splits)

theorem penalized_acquisition_empty_batch_witness:
  "penalized_acquisition ex_externals [[0], [1]] ex_acquisition [(0, 1)] ex_model None
     None None = Inr [- 2, - 1]"
  using penalized_acquisition_empty_batch
    [of ex_externals "[[0], [1]]" ex_acquisition "[(0, 1)]" ex_model None None "[]"]
  by (simp add: ex_sur_min ex_acquisition_def normalized_fval_def)

lemma variance_floor_ge: "1 / 10 ^ 16 \<le> variance_floor v"
  by (simp add: variance_floor_def)

lemma variance_floor_pos: "0 < variance_floor v"
proof -
  have "(0::real) < 1 / 10 ^ 16" by simp
  then show ?thesis using variance_floor_ge [of v] by linarith
qed

lemma hammer_s_x0_pos:
  assumes "0 < L"
  shows "hammer_s_x0 x0 L model = Inr (sqrt (variance_floor (snd (predict model x0))) / L)
         \<and> 0 < sqrt (variance_floor (snd (predict model x0))) / L"
proof -
  have "0 < sqrt (variance_floor (snd (predict model x0)))"
    using variance_floor_pos [of "snd (predict model x0)"] by simp
  with assms show ?thesis
    by (simp add: hammer_s_x0_def np_divide_def Let_def)
qed

lemma hammer_function_pos:
  assumes "0 < L"
  shows "hammer_function E x x0 L Min' model =
           Inr (map (\<lambda>xi. norm_cdf E
                  ((row_dist xi x0 - (fst (predict model x0) - Min') / L)
                     / (sqrt (variance_floor (snd (predict model x0))) / L))) x)"
proof -
  have "variance_floor (snd (predict model x0)) \<noteq> 0"
    using variance_floor_pos [of "snd (predict model x0)"] by simp
  with assms show ?thesis
    using hammer_s_x0_pos [OF assms, of x0 model]
    by (simp add: hammer_function_def np_divide_def Let_def)
qed




text \<open>
  C6. For a fixed batch point \<open>x0\<close>, a Lipschitz estimate \<open>L > 0\<close>, a minimum estimate and a
  model, the hammer value does not decrease with the distance to \<open>x0\<close>: of two query
  points, the one at least as far from \<open>x0\<close> has at least the exclusion value of the
  other. The distribution function \<^verbatim>\<open>norm.cdf\<close> is taken to be monotone.
\<close>

theorem hammer_function_monotone:
  assumes "mono (norm_cdf E)" and "0 < L" and "row_dist x x0 \<le> row_dist y x0"
  shows "\<exists>hx hy. hammer_function E [x] x0 L Min' model = Inr [hx]
           \<and> hammer_function E [y] x0 L Min' model = Inr [hy]
           \<and> hammer_function E [x, y] x0 L Min' model = Inr [hx, hy]
           \<and> hx \<le> hy"
proof -
  let ?r = "(fst (predict model x0) - Min') / L"
  let ?s = "sqrt (variance_floor (snd (predict model x0))) / L"
  have s: "0 < ?s"
    using hammer_s_x0_pos [OF assms(2), of x0 model] by simp
  from assms(3) have "row_dist x x0 - ?r \<le> row_dist y x0 - ?r" by simp
  then have "(row_dist x x0 - ?r) / ?s \<le> (row_dist y x0 - ?r) / ?s"
    by (rule divide_right_mono [OF _ less_imp_le [OF s]])
  then have "norm_cdf E ((row_dist x x0 - ?r) / ?s) \<le> norm_cdf E ((row_dist y x0 - ?r) / ?s)"
    using assms(1) by (rule monoD [rotated])
  then show ?thesis
    by (simp add: hammer_function_pos [OF assms(2)])
qed

lemma ex_norm_cdf_mono: "mono ex_norm_cdf"
  by (rule monoI) (simp add: ex_norm_cdf_def divide_right_mono)

theorem hammer_function_monotone_witness:
  "mono (norm_cdf ex_externals) \<and> (0::real) < 1 \<and> row_dist [0] [0] \<le> row_dist [1] [0]
   \<and> hammer_function ex_externals [[0], [1]] [0] 1 0 ex_model = Inr [0, 1 / 2]
   \<and> (0::real) \<le> 1 / 2"
proof -
  have m: "mono (norm_cdf ex_externals)"
    by (simp add: ex_fields ex_norm_cdf_mono)
  have d: "row_dist [0] [0] \<le> row_dist [1] [0]"
    by (simp add: row_dist_def)
  from hammer_function_monotone [OF m _ d, of 1 0 ex_model]
  show ?thesis using m d by (simp add: ex_hammer)
qed

subsection \<open>The single-point optimizer returns a point, and one within the box\<close>

declare hybrid_loop.simps [simp del]














subsection \<open>The seed of the fast family\<close>

lemma penalized_seed_spec_empty:
  assumes "acq (model_X model) \<noteq> []" and "X_batch = None \<or> X_batch = Some []"
  shows "penalized_seed_spec E acq bnds r model mt X_batch L Min' g = fast_seed E acq bnds r mt g"
proof -
  obtain s where s: "sur_min acq model = Inr s"
    using assms(1) by (simp add: sur_min_def py_min_def)
  have "penalized_acquisition E x acq bnds model X_batch L Min' = Inr (map (\<lambda>a. a + s) (acq x))"
    for x
    using assms(2) s
    by (auto simp: penalized_acquisition_def Let_def normalized_fval_uminus)
  then show ?thesis
    by (simp add: penalized_seed_spec_def fast_seed_def np_argmin_shift split: prod.splits)
qed

text \<open>
  C1, as the code has it. In the fast family the candidates are scored by the raw
  acquisition, in one batched call, and the first arg-min of those raw scores is the single
  seed of the one local refinement, whose objective is the penalized acquisition. With an
  empty batch-so-far (and at least one observed point) this seed is also the arg-min of the
  penalized scores, which then are the raw scores plus a constant; for a non-empty
  batch-so-far the selection of the seed does not depend on the batch.
\<close>

theorem fast_seed_is_raw_argmin:
  "fast_acquisition_optimization E acq bnds r model mt X_batch L Min' g =
     (case fast_seed E acq bnds r mt g of
        Inl e \<Rightarrow> Inl e
      | Inr (x0, g') \<Rightarrow>
          (case minimize E (\<lambda>x. penalized_acquisition E x acq bnds model X_batch L Min')
                  x0 bnds of
             Inl e \<Rightarrow> Inl e
           | Inr res \<Rightarrow> Inr (opt_x res, g')))
   \<and> (fast_seed E acq bnds r mt g = Inr (x0, g1) \<longrightarrow>
        (\<exists>i. i < length (fst (draw_samples E mt bnds r g))
           \<and> x0 = fst (draw_samples E mt bnds r g) ! i
           \<and> i < length (acq (fst (draw_samples E mt bnds r g)))
           \<and> (\<forall>j < length (acq (fst (draw_samples E mt bnds r g))).
                 acq (fst (draw_samples E mt bnds r g)) ! i
                   \<le> acq (fst (draw_samples E mt bnds r g)) ! j)
           \<and> (\<forall>j < i.
                 acq (fst (draw_samples E mt bnds r g)) ! i
                   < acq (fst (draw_samples E mt bnds r g)) ! j)))
   \<and> (acq (model_X model) \<noteq> [] \<longrightarrow>
        penalized_seed_spec E acq bnds r model mt None L Min' g = fast_seed E acq bnds r mt g
        \<and> penalized_seed_spec E acq bnds r model mt (Some []) L Min' g
            = fast_seed E acq bnds r mt g)"
proof (intro conjI impI)
  show "fast_acquisition_optimization E acq bnds r model mt X_batch L Min' g =
     (case fast_seed E acq bnds r mt g of
        Inl e \<Rightarrow> Inl e
      | Inr (x0, g') \<Rightarrow>
          (case minimize E (\<lambda>x. penalized_acquisition E x acq bnds model X_batch L Min')
                  x0 bnds of
             Inl e \<Rightarrow> Inl e
           | Inr res \<Rightarrow> Inr (opt_x res, g')))"
    by (simp add: fast_acquisition_optimization_def)
next
  assume a: "fast_seed E acq bnds r mt g = Inr (x0, g1)"
  let ?samples = "fst (draw_samples E mt bnds r g)"
  let ?scores = "acq ?samples"
  from a obtain i where n: "np_argmin ?scores = Inr i" and x: "row ?samples i = Inr x0"
    by (auto simp: fast_seed_def split: prod.splits sum.splits)
  from np_argmin_Inr [OF n] have i: "i < length ?scores" "i = argmin_first ?scores"
    by simp_all
  from x have xi: "i < length ?samples" "x0 = ?samples ! i"
    by (auto simp: row_def split: if_splits)
  have "\<forall>j < length ?scores. ?scores ! i \<le> ?scores ! j"
    using i(2) argmin_first_le by blast
  moreover have "\<forall>j < i. ?scores ! i < ?scores ! j"
    using i(2) argmin_first_strict by blast
  ultimately show "\<exists>i. i < length ?samples \<and> x0 = ?samples ! i \<and> i < length ?scores
      \<and> (\<forall>j < length ?scores. ?scores ! i \<le> ?scores ! j)
      \<and> (\<forall>j < i. ?scores ! i < ?scores ! j)"
    using i(1) xi by blast
next
  assume "acq (model_X model) \<noteq> []"
  then show "penalized_seed_spec E acq bnds r model mt None L Min' g
      = fast_seed E acq bnds r mt g"
    by (rule penalized_seed_spec_empty) simp
next
  assume "acq (model_X model) \<noteq> []"
  then show "penalized_seed_spec E acq bnds r model mt (Some []) L Min' g
      = fast_seed E acq bnds r mt g"
    by (rule penalized_seed_spec_empty) simp
qed

theorem fast_seed_is_raw_argmin_witness:
  "fast_seed ex_externals ex_acquisition [(0, 1)] 2 ''brute'' (0::nat) = Inr ([0], 0)
   \<and> ex_acquisition (model_X ex_model) \<noteq> []
   \<and> penalized_seed_spec ex_externals ex_acquisition [(0, 1)] 2 ex_model ''brute'' None
       None None (0::nat) = Inr ([0], 0)
   \<and> fast_acquisition_optimization ex_externals ex_acquisition [(0, 1)] 2 ex_model ''brute''
       None None None (0::nat) = Inr ([0], 0)"
proof -
  have n: "ex_acquisition (model_X ex_model) \<noteq> []"
    by (simp add: ex_acquisition_def ex_model_def)
  from fast_seed_is_raw_argmin
    [of ex_externals ex_acquisition "[(0, 1)]" 2 ex_model "''brute''" None None None 0 "[0]" 0]
  show ?thesis using n by (simp add: ex_fast_seed ex_fast)
qed

text \<open>
  The claim as stated fails on a non-empty batch. Two candidates, 0 and 1, with raw
  scores \<open>-2\<close> and \<open>-1\<close>; the batch-so-far holds the point 0, with \<open>L = 1\<close> and \<open>Min = 0\<close>.
  The penalized scores are \<open>0\<close> and \<open>-1/2\<close>, so their arg-min is the candidate 1; the
  code seeds the refinement with the candidate 0, the arg-min of the raw scores. (With
  the normal distribution function the penalized scores are about \<open>-0.32\<close> and \<open>-0.5\<close>,
  with the same arg-min.)
\<close>

theorem fast_seed_penalized_counterexample:
  "ex_acquisition [[0], [1]] = [- 2, - 1]
   \<and> penalized_acquisition ex_externals [[0], [1]] ex_acquisition [(0, 1)] ex_model
       (Some [[0]]) (Some 1) (Some 0) = Inr [0, - 1 / 2]
   \<and> penalized_seed_spec ex_externals ex_acquisition [(0, 1)] 2 ex_model ''brute''
       (Some [[0]]) (Some 1) (Some 0) (0::nat) = Inr ([1], 0)
   \<and> fast_seed ex_externals ex_acquisition [(0, 1)] 2 ''brute'' (0::nat) = Inr ([0], 0)
   \<and> fast_seed ex_externals ex_acquisition [(0, 1)] 2 ''brute'' (0::nat)
       \<noteq> penalized_seed_spec ex_externals ex_acquisition [(0, 1)] 2 ex_model ''brute''
           (Some [[0]]) (Some 1) (Some 0) 0
   \<and> fast_acquisition_optimization ex_externals ex_acquisition [(0, 1)] 2 ex_model ''brute''
       (Some [[0]]) (Some 1) (Some 0) (0::nat) = Inr ([0], 0)"
  by (simp add: ex_penalized ex_penalized_seed ex_fast_seed ex_fast ex_acquisition_def)

subsection \<open>The loops of the batch strategies\<close>










lemma hybrid_loop_stop:
  assumes "k < n"
    and "BayesianOptimization E bnds (X @ [X_new]) (Y @ [fst (predict model X_new)]) kern
           acqu_name par = Inl LinAlgError"
  shows "hybrid_loop E acqu_name par bnds r m model kern n k X Y X_new B g =
           Inr (B, g, [''Optimization stopped. Two equal points selected.''])"
  using assms
  by (simp add: hybrid_loop.simps [of E acqu_name par bnds r m model kern n k X Y X_new B g])

lemma hybrid_loop_result:
  "case hybrid_loop E acqu_name par bnds r m model kern n k X Y X_new B g of
     Inl e \<Rightarrow> e \<noteq> LinAlgError
   | Inr (B', g', out) \<Rightarrow>
       (\<exists>rest. B' = B @ rest) \<and> length B' \<le> length B + nat (n - k)"
proof (induction E acqu_name par bnds r m model kern n k X Y X_new B g
    rule: hybrid_loop.induct)
  case (1 E acqu_name par bnds r m model kern n k X Y X_new B g)
  let ?c = "BayesianOptimization E bnds (X @ [X_new]) (Y @ [fst (predict model X_new)]) kern
      acqu_name par"
  show ?case
  proof (cases "k < n")
    case True
    show ?thesis
    proof (cases ?c)
      case (Inl e)
      with True show ?thesis
        by (simp add: hybrid_loop.simps [of E acqu_name par bnds r m model kern n k X Y X_new B g])
    next
      case (Inr bo)
      from True have "nat (n - k) = Suc (nat (n - (k + 1)))" by simp
      with 1 [OF True Inr] True Inr show ?thesis
        by (auto simp: hybrid_loop.simps [of E acqu_name par bnds r m model kern n k X Y X_new B g]
            split: sum.splits)
    qed
  next
    case False
    then show ?thesis
      by (simp add: hybrid_loop.simps [of E acqu_name par bnds r m model kern n k X Y X_new B g])
  qed
qed




lemma mask_rows_labels:
  assumes "length (batch_labels :: int list) = length (X :: matrix)"
  shows "\<exists>x. mask_rows X (map (\<lambda>l. l = k) batch_labels) = Inr x"
  using assms by (simp add: mask_rows_def)

lemma compute_batch_weigths_returns:
  assumes "\<And>S. \<exists>R. sqrtm_inv_real E S = Inr R"
  shows "\<exists>w. compute_batch_weigths E x model = Inr w"
proof -
  from assms obtain R where "sqrtm_inv_real E (kern_K model x) = Inr R" by blast
  then show ?thesis
    by (simp add: compute_batch_weigths_def compute_w_def Let_def)
qed

lemma sm_loop_returns:
  assumes "length batch_labels = length (model_X model)"
    and "\<And>S. \<exists>R. sqrtm_inv_real E S = Inr R"
  shows "\<exists>w X_batch'. sm_loop E model n batch_labels ks weights X_batch = Inr (w, X_batch')"
proof (induction ks arbitrary: weights X_batch)
  case Nil
  then show ?case by simp
next
  case (Cons k ks)
  from mask_rows_labels [OF assms(1), of k] obtain x where
    x: "mask_rows (model_X model) (map (\<lambda>l. l = k) batch_labels) = Inr x" by blast
  from compute_batch_weigths_returns [OF assms(2), of x model] obtain w where
    w: "compute_batch_weigths E x model = Inr w" by blast
  from x w Cons.IH show ?case by (simp add: Let_def)
qed

lemma sm_loop_Some:
  assumes "ks \<noteq> []"
    and "sm_loop E model n batch_labels ks weights X_batch = Inr (w', X_batch')"
  shows "\<exists>w. X_batch' = Some (WKmeans E (model_X model) w n)"
  using assms
proof (induction ks arbitrary: weights X_batch)
  case Nil
  then show ?case by simp
next
  case (Cons k ks)
  from Cons.prems(2) obtain w where
    l: "sm_loop E model n batch_labels ks
          (mask_assign weights (map (\<lambda>l. l = k) batch_labels) w)
          (Some (WKmeans E (model_X model)
             (mask_assign weights (map (\<lambda>l. l = k) batch_labels) w) n))
        = Inr (w', X_batch')"
    by (auto simp: Let_def split: sum.splits)
  show ?case
  proof (cases "ks = []")
    case True
    with l show ?thesis by auto
  next
    case False
    from Cons.IH [OF False l] show ?thesis .
  qed
qed

lemma sm_loop_None:
  assumes "sm_loop E model n batch_labels ks weights X_batch = Inr (w', None)"
  shows "ks = []"
proof (rule ccontr)
  assume "ks \<noteq> []"
  from sm_loop_Some [OF this assms] show False by simp
qed

subsection \<open>More facts about the concrete instance\<close>






lemma ex_optimize:
  "optimize_acquisition ex_externals ex_acquisition [(0, 1)] 2 ''fast_brute'' ex_model
     X_batch L Min' g = Inr ([0], g)"
  by (simp add: optimize_acquisition_def ex_fast)

lemma ex_hybrid_loop_3:
  "hybrid_loop ex_externals ''EI'' 0 [(0, 1)] 2 ''fast_brute'' ex_model (kern_K ex_model) 4 3
     [[5], [0], [1]] [0, 1, 1] [1] [[0], [1], [1]] (2::nat)
   = Inr ([[0], [1], [1]], 2, [''Optimization stopped. Two equal points selected.''])"
  by (rule hybrid_loop_stop) (simp_all add: ex_fields)

lemma ex_hybrid_loop_2:
  "hybrid_loop ex_externals ''EI'' 0 [(0, 1)] 2 ''fast_brute'' ex_model (kern_K ex_model) 4 2
     [[5], [0]] [0, 1] [1] [[0], [1]] (Suc 0)
   = Inr ([[0], [1], [1]], 2, [''Optimization stopped. Two equal points selected.''])"
  using ex_hybrid_loop_3
  by (subst hybrid_loop.simps) (simp add: ex_fields ex_model_def numeral_2_eq_2)

lemma ex_hybrid_loop_1:
  "hybrid_loop ex_externals ''EI'' 0 [(0, 1)] 2 ''fast_brute'' ex_model (kern_K ex_model) 4 1
     [[5]] [0] [0] [[0]] (0::nat)
   = Inr ([[0], [1], [1]], 2, [''Optimization stopped. Two equal points selected.''])"
  using ex_hybrid_loop_2
  by (subst hybrid_loop.simps) (simp add: ex_fields ex_model_def)

lemma ex_hybrid:
  "hybrid_batch_optimization ex_externals ''EI'' 0 ex_acquisition [(0, 1)] 2 ''fast_brute''
     ex_model 4 (0::nat)
   = Inr ([[0], [1], [1]], 2, [''Optimization stopped. Two equal points selected.''])"
  using ex_hybrid_loop_1
  by (simp add: hybrid_batch_optimization_def ex_optimize Let_def) (simp add: ex_model_def)

subsection \<open>The surrogate-refit batch stops early\<close>

text \<open>
  C8. In the loop of the surrogate-refit batch, in whatever state it is reached, a
  \<^verbatim>\<open>LinAlgError\<close> raised by the construction of the refit surrogate ends the loop: the
  operation returns the batch collected so far, and the error does not reach the caller.
  Whenever the first single-point optimization returns a point \<open>x1\<close>, the operation does
  not fail with \<^verbatim>\<open>LinAlgError\<close>, and a batch it returns starts with \<open>x1\<close> (so it has at
  least that point) and has at most \<open>n_inbatch\<close> points.
\<close>

theorem hybrid_linalg_error_stops_early:
  "(k < n \<and> BayesianOptimization E bnds (X @ [X_new]) (Y @ [fst (predict model X_new)]) kern
        acqu_name par = Inl LinAlgError \<longrightarrow>
      hybrid_loop E acqu_name par bnds r m model kern n k X Y X_new B g
        = Inr (B, g, [''Optimization stopped. Two equal points selected.'']))
   \<and> (optimize_acquisition E acq bnds r m model None None None g0 = Inr (x1, g1) \<longrightarrow>
        (case hybrid_batch_optimization E acqu_name par acq bnds r m model n g0 of
           Inl e \<Rightarrow> e \<noteq> LinAlgError
         | Inr (B', g', out) \<Rightarrow> B' \<noteq> [] \<and> hd B' = x1 \<and> int (length B') \<le> max 1 n))"
proof (intro conjI impI)
  assume "k < n \<and> BayesianOptimization E bnds (X @ [X_new]) (Y @ [fst (predict model X_new)])
      kern acqu_name par = Inl LinAlgError"
  then show "hybrid_loop E acqu_name par bnds r m model kern n k X Y X_new B g
      = Inr (B, g, [''Optimization stopped. Two equal points selected.''])"
    by (simp add: hybrid_loop_stop)
next
  assume o: "optimize_acquisition E acq bnds r m model None None None g0 = Inr (x1, g1)"
  have "int (1 + nat (n - 1)) \<le> max 1 n" by simp
  with o hybrid_loop_result
    [where E = E and acqu_name = acqu_name and par = par and bnds = bnds and r = r and m = m
      and model = model and kern = "kern_K model" and n = n and k = 1
      and X = "model_X model" and Y = "model_Y model" and X_new = x1 and B = "[x1]"
      and g = g1]
  show "case hybrid_batch_optimization E acqu_name par acq bnds r m model n g0 of
      Inl e \<Rightarrow> e \<noteq> LinAlgError
    | Inr (B', g', out) \<Rightarrow> B' \<noteq> [] \<and> hd B' = x1 \<and> int (length B') \<le> max 1 n"
    by (auto simp: hybrid_batch_optimization_def Let_def split: sum.splits)
qed

theorem hybrid_linalg_error_stops_early_witness:
  "(3::int) < 4
   \<and> BayesianOptimization ex_externals [(0, 1)] ([[5], [0], [1]] @ [[1]])
       ([0, 1, 1] @ [fst (predict ex_model [1])]) (kern_K ex_model) ''EI'' 0 = Inl LinAlgError
   \<and> optimize_acquisition ex_externals ex_acquisition [(0, 1)] 2 ''fast_brute'' ex_model
       None None None (0::nat) = Inr ([0], 0)
   \<and> hybrid_batch_optimization ex_externals ''EI'' 0 ex_acquisition [(0, 1)] 2 ''fast_brute''
       ex_model 4 (0::nat)
     = Inr ([[0], [1], [1]], 2, [''Optimization stopped. Two equal points selected.''])
   \<and> hd [[0], [1], [1::real]] = [0] \<and> int (length [[0], [1], [1::real]]) \<le> max 1 4"
proof -
  have c: "BayesianOptimization ex_externals [(0, 1)] ([[5], [0], [1]] @ [[1]])
      ([0, 1, 1] @ [fst (predict ex_model [1])]) (kern_K ex_model) ''EI'' 0 = Inl LinAlgError"
    by (simp add: ex_fields)
  from hybrid_linalg_error_stops_early
    [of 3 4 ex_externals "[(0, 1)]" "[[5], [0], [1]]" "[1]" "[0, 1, 1]" ex_model
      "kern_K ex_model" "''EI''" 0 2 "''fast_brute''" "[[0], [1], [1]]" 2 ex_acquisition 0
      "[0]" 0]
  show ?thesis
    using c by (simp add: ex_optimize ex_hybrid)
qed

subsection \<open>The size of the batch\<close>







lemma sm_batch_Inr:
  assumes "sm_batch_optimization E model n batch_labels = (Inr B, out)"
  shows "\<exists>w. B = WKmeans E (model_X model) w n"
proof -
  let ?l = "sm_loop E model n batch_labels (sort (remdups batch_labels))
      (replicate (nat (int (length (model_X model)))) 0) None"
  from assms obtain w' where l: "?l = Inr (w', Some B)"
    by (auto simp: sm_batch_optimization_def Let_def split: sum.splits option.splits)
  have "sort (remdups batch_labels) \<noteq> []"
  proof
    assume "sort (remdups batch_labels) = []"
    with l show False by simp
  qed
  from sm_loop_Some [OF this l] show ?thesis by simp
qed

lemma sm_batch_out:
  "snd (sm_batch_optimization E model n batch_labels) =
     (if int (length (model_X model)) < n
      then [''Initial points should be larger than the batch size''] else [])"
  by (simp add: sm_batch_optimization_def Let_def split: sum.splits option.splits)

lemma sm_batch_returns:
  assumes "batch_labels \<noteq> []" and "length batch_labels = length (model_X model)"
    and "\<And>S. \<exists>R. sqrtm_inv_real E S = Inr R"
  shows "\<exists>w. sm_batch_optimization E model n batch_labels =
           (Inr (WKmeans E (model_X model) w n),
            if int (length (model_X model)) < n
            then [''Initial points should be larger than the batch size''] else [])"
proof -
  let ?ks = "sort (remdups batch_labels)"
  let ?l = "sm_loop E model n batch_labels ?ks
      (replicate (nat (int (length (model_X model)))) 0) None"
  from assms(1) have ne: "?ks \<noteq> []"
    by (metis length_0_conv length_sort remdups_eq_nil_iff)
  from sm_loop_returns [OF assms(2,3), of n ?ks] obtain w' X_batch' where
    l: "?l = Inr (w', X_batch')" by blast
  from sm_loop_Some [OF ne l] obtain w where
    "X_batch' = Some (WKmeans E (model_X model) w n)" by blast
  with l show ?thesis
    by (auto simp: sm_batch_optimization_def Let_def)
qed










subsection \<open>Bounds containment\<close>





lemma ex_sm_batch:
  "sm_batch_optimization ex_externals ex_model 2 [0]
     = (Inr [[5]], [''Initial points should be larger than the batch size''])"
  by (simp add: sm_batch_optimization_def Let_def ex_model_def mask_rows_def
      compute_batch_weigths_def compute_w_def np_dot_def np_delete_def ex_fields ex_norm_cdf_def)










subsection \<open>The weighted clustering does not abort\<close>

text \<open>
  C2, at the failing inputs. When there are fewer observed points than \<open>n_inbatch\<close> the
  operation prints its message and goes on with the statements after the guard: whatever
  it then returns is what the clustering, run with \<open>n_inbatch\<close> clusters on the observed
  points, returns; and it does return that (given a label for every observed point, at
  least one of them, and no singular group kernel).
\<close>

theorem sm_batch_optimization_no_abort:
  "(batch_labels \<noteq> [] \<and> int (length (model_X model)) < n
      \<and> length batch_labels = length (model_X model)
      \<and> (\<forall>S. \<exists>R. sqrtm_inv_real E S = Inr R) \<longrightarrow>
      (\<exists>w. sm_batch_optimization E model n batch_labels =
             (Inr (WKmeans E (model_X model) w n),
              [''Initial points should be larger than the batch size''])))
   \<and> (int (length (model_X model)) < n \<longrightarrow>
        snd (sm_batch_optimization E model n batch_labels)
          = [''Initial points should be larger than the batch size'']
        \<and> (\<forall>B. fst (sm_batch_optimization E model n batch_labels) = Inr B \<longrightarrow>
              (\<exists>w. B = WKmeans E (model_X model) w n)))"
proof (intro conjI impI allI)
  assume a: "batch_labels \<noteq> [] \<and> int (length (model_X model)) < n
      \<and> length batch_labels = length (model_X model)
      \<and> (\<forall>S. \<exists>R. sqrtm_inv_real E S = Inr R)"
  then have "\<And>S. \<exists>R. sqrtm_inv_real E S = Inr R" by blast
  from sm_batch_returns [OF _ _ this, of batch_labels model n] a
  show "\<exists>w. sm_batch_optimization E model n batch_labels =
      (Inr (WKmeans E (model_X model) w n),
       [''Initial points should be larger than the batch size''])"
    by auto
next
  assume "int (length (model_X model)) < n"
  then show "snd (sm_batch_optimization E model n batch_labels)
      = [''Initial points should be larger than the batch size'']"
    by (simp add: sm_batch_out)
next
  fix B
  assume "fst (sm_batch_optimization E model n batch_labels) = Inr B"
  then have "sm_batch_optimization E model n batch_labels
      = (Inr B, snd (sm_batch_optimization E model n batch_labels))"
    by (metis prod.collapse)
  then show "\<exists>w. B = WKmeans E (model_X model) w n" by (rule sm_batch_Inr)
qed

theorem sm_batch_optimization_no_abort_witness:
  "[0::int] \<noteq> [] \<and> int (length (model_X ex_model)) < 2
   \<and> length [0::int] = length (model_X ex_model)
   \<and> (\<forall>S. \<exists>R. sqrtm_inv_real ex_externals S = Inr R)
   \<and> WKmeans ex_externals (model_X ex_model) [1] 2 = [[5]]
   \<and> sm_batch_optimization ex_externals ex_model 2 [0]
       = (Inr [[5]], [''Initial points should be larger than the batch size''])"
  using sm_batch_optimization_no_abort [of "[0]" ex_model 2 ex_externals]
  by (simp add: ex_sm_batch) (simp add: ex_model_def ex_fields)

end
